theory Spec2Isabelle
  imports Complex_Main "HOL-Library.Multiset"
begin

section \<open>Data model\<close>

text \<open>
  A pandas cell is a string, a number or the missing value. Python floats and ints are
  both read as reals; \<open>NaN\<close> is pandas' missing value (a blank CSV field, a failed
  numeric coercion).
\<close>

datatype cell = Str string | Num real | NaN

text \<open>
  A DataFrame, column-major: the labelled columns in their order and the number of rows
  (kept apart, since a frame may have rows and no column). Column labels are unique in
  every frame the service builds: \<open>pd.DataFrame([dict])\<close> and \<open>pd.read_csv\<close> both
  yield unique labels.
\<close>

record dataframe =
  columns :: "(string \<times> cell list) list"
  nrows :: nat

text \<open>\<open>df[name]\<close> as a lookup by label; \<open>None\<close> stands for the KeyError.\<close>

definition get_column :: "dataframe \<Rightarrow> string \<Rightarrow> cell list option" where
  "get_column df name = map_of (columns df) name"

definition column_names :: "dataframe \<Rightarrow> string list" where
  "column_names df = map fst (columns df)"

text \<open>\<open>df.drop(columns=names)\<close>: a frame without the columns so labelled.\<close>

definition drop_columns :: "string list \<Rightarrow> dataframe \<Rightarrow> dataframe" where
  "drop_columns names df = df\<lparr>columns := filter (\<lambda>c. fst c \<notin> set names) (columns df)\<rparr>"

text \<open>\<open>df[name] = f(df[name])\<close> for a column that exists: the column keeps its place.\<close>

definition map_column :: "string \<Rightarrow> (cell list \<Rightarrow> cell list) \<Rightarrow> dataframe \<Rightarrow> dataframe" where
  "map_column name f df =
     df\<lparr>columns := map (\<lambda>c. if fst c = name then (fst c, f (snd c)) else c) (columns df)\<rparr>"

section \<open>utils/data\_preprocessing.py\<close>

text \<open>
  \<open>pd.to_numeric(series, errors='coerce')\<close>, cell by cell. The parser of numeric
  strings belongs to pandas and is a parameter: \<open>parse s = None\<close> when \<open>s\<close> is not a
  number. With \<open>errors='coerce'\<close> such a cell becomes the missing value instead of
  raising.
\<close>

fun to_numeric_coerce :: "(string \<Rightarrow> real option) \<Rightarrow> cell \<Rightarrow> cell" where
  "to_numeric_coerce parse (Str s) = (case parse s of Some x \<Rightarrow> Num x | None \<Rightarrow> NaN)"
| "to_numeric_coerce parse (Num x) = Num x"
| "to_numeric_coerce parse NaN = NaN"

text \<open>\<open>series.fillna(v)\<close>, cell by cell.\<close>

fun fillna :: "real \<Rightarrow> cell \<Rightarrow> cell" where
  "fillna v NaN = Num v"
| "fillna v (Str s) = Str s"
| "fillna v (Num x) = Num x"

text \<open>\<open>series.replace(old, new)\<close> for two strings, cell by cell.\<close>

fun replace_value :: "string \<Rightarrow> string \<Rightarrow> cell \<Rightarrow> cell" where
  "replace_value old new (Str s) = (if s = old then Str new else Str s)"
| "replace_value old new (Num x) = Num x"
| "replace_value old new NaN = NaN"

definition replace_cols :: "string list" where
  "replace_cols = [''MultipleLines'', ''OnlineSecurity'', ''OnlineBackup'',
     ''DeviceProtection'', ''TechSupport'', ''StreamingTV'', ''StreamingMovies'']"

text \<open>The body of the loop over \<open>replace_cols\<close>.\<close>

definition replace_step :: "string \<Rightarrow> dataframe \<Rightarrow> dataframe" where
  "replace_step col df =
     (if col \<in> set (column_names df)
      then map_column col (map (replace_value ''No phone service'' ''No''))
             (map_column col (map (replace_value ''No internet service'' ''No'')) df)
      else df)"

text \<open>
  \<open>clean_data\<close>, on the value of the frame (the copy it works on is the subject of the
  heap model further down).
\<close>

definition clean_data :: "(string \<Rightarrow> real option) \<Rightarrow> dataframe \<Rightarrow> dataframe" where
  "clean_data parse df0 =
     (let df1 = (if ''customerID'' \<in> set (column_names df0)
                 then drop_columns [''customerID''] df0 else df0);
          df2 = (if ''Churn'' \<in> set (column_names df1)
                 then drop_columns [''Churn''] df1 else df1);
          df3 = (if ''TotalCharges'' \<in> set (column_names df2)
                 then map_column ''TotalCharges''
                        (map (fillna 0 \<circ> to_numeric_coerce parse)) df2
                 else df2)
      in fold replace_step replace_cols df3)"

section \<open>services/shap\_service.py\<close>

datatype py_error = IndexError | ValueError | TypeError

text \<open>
  The trained pipeline is an artifact loaded from a file; the source reads it through
  \<open>named_steps['preprocessor'].transform\<close>, \<open>predict_proba\<close> and
  \<open>shap.TreeExplainer(classifier).shap_values\<close>. These are parameters. A two-dimensional
  array is the list of its rows. The explainer's output has the two shapes the source
  tells apart: a Python list of arrays, one per class, or one array.
\<close>

datatype shap_output = PerClass "real list list list" | Single "real list list"

record model =
  preprocessor_transform :: "dataframe \<Rightarrow> real list list"
  predict_proba :: "dataframe \<Rightarrow> real list list"
  explainer_shap_values :: "real list list \<Rightarrow> shap_output"

text \<open>
  \<open>if isinstance(shap_vals, list): shap_vals = shap_vals[1]\<close>; the index raises on a
  list of fewer than two arrays.
\<close>

definition select_class1 :: "shap_output \<Rightarrow> py_error + real list list" where
  "select_class1 out =
     (case out of
        PerClass arrays \<Rightarrow> (if 1 < length arrays then Inr (arrays ! 1) else Inl IndexError)
      | Single a \<Rightarrow> Inr a)"

text \<open>\<open>calculate_shap_values\<close>; \<open>flatten().tolist()\<close> is \<open>concat\<close> on the rows.\<close>

definition calculate_shap_values :: "model \<Rightarrow> dataframe \<Rightarrow> py_error + (real list \<times> string list)" where
  "calculate_shap_values m preprocessed_data =
     (let X_transformed = preprocessor_transform m preprocessed_data;
          shap_vals = explainer_shap_values m X_transformed
      in case select_class1 shap_vals of
           Inl e \<Rightarrow> Inl e
         | Inr a \<Rightarrow> Inr (concat a, column_names preprocessed_data))"

text \<open>
  \<open>feats.sort(key=lambda x: abs(x[1]), reverse=True)\<close>. Python's sort is stable, also
  with \<open>reverse=True\<close>: the result is in descending key order and elements of equal key
  keep their order. That is the stable ascending sort by the negated key.
\<close>

definition sort_by_abs_desc :: "(string \<times> real) list \<Rightarrow> (string \<times> real) list" where
  "sort_by_abs_desc feats = sort_key (\<lambda>x. - \<bar>snd x\<bar>) feats"

text \<open>The slice \<open>xs[:n]\<close>: a negative \<open>n\<close> counts from the end.\<close>

definition py_prefix :: "'a list \<Rightarrow> int \<Rightarrow> 'a list" where
  "py_prefix xs n = (if 0 \<le> n then take (nat n) xs else take (length xs - nat (- n)) xs)"

definition get_top_features :: "real list \<Rightarrow> string list \<Rightarrow> int \<Rightarrow> (string \<times> real) list" where
  "get_top_features shap_values feature_names top_n =
     py_prefix (sort_by_abs_desc (zip feature_names shap_values)) top_n"

text \<open>\<open>df.empty\<close>: no row or no column.\<close>

definition df_empty :: "dataframe \<Rightarrow> bool" where
  "df_empty df = (nrows df = 0 \<or> columns df = [])"

text \<open>
  \<open>np.mean(np.abs(a), axis=0)\<close> on a two-dimensional array: the mean of the absolute
  values of each column. The width of an array is the length of its rows.
\<close>

definition array_width :: "real list list \<Rightarrow> nat" where
  "array_width a = (case a of [] \<Rightarrow> 0 | r # _ \<Rightarrow> length r)"

definition mean_abs_axis0 :: "real list list \<Rightarrow> real list" where
  "mean_abs_axis0 a =
     map (\<lambda>j. sum_list (map (\<lambda>r. \<bar>r ! j\<bar>) a) / real (length a)) [0 ..< array_width a]"

record shap_aggregate =
  top_features :: "(string \<times> real) list"
  mean_shap_values :: "real list"
  agg_feature_names :: "string list"

definition calculate_batch_shap_aggregate :: "model \<Rightarrow> dataframe \<Rightarrow> py_error + shap_aggregate option" where
  "calculate_batch_shap_aggregate m high_risk_data =
     (if df_empty high_risk_data then Inr None
      else
        let X_transformed = preprocessor_transform m high_risk_data;
            shap_vals = explainer_shap_values m X_transformed
        in case select_class1 shap_vals of
             Inl e \<Rightarrow> Inl e
           | Inr a \<Rightarrow>
               let feature_names = column_names high_risk_data;
                   mean_shap = mean_abs_axis0 a;
                   top = sort_by_abs_desc (zip feature_names mean_shap)
               in Inr (Some \<lparr>top_features = py_prefix top 10,
                              mean_shap_values = mean_shap,
                              agg_feature_names = feature_names\<rparr>))"

section \<open>services/prediction\_service.py\<close>

text \<open>An exception of the source is the left summand; this runs the rest on a result.\<close>

definition bind_err :: "py_error + 'a \<Rightarrow> ('a \<Rightarrow> py_error + 'b) \<Rightarrow> py_error + 'b" where
  "bind_err r f = (case r of Inl e \<Rightarrow> Inl e | Inr x \<Rightarrow> f x)"

text \<open>\<open>xs[0]\<close> and \<open>xs[1]\<close>, with their IndexError.\<close>

definition item0 :: "'a list \<Rightarrow> py_error + 'a" where
  "item0 xs = (case xs of [] \<Rightarrow> Inl IndexError | x # _ \<Rightarrow> Inr x)"

definition item1 :: "'a list \<Rightarrow> py_error + 'a" where
  "item1 xs = (if 1 < length xs then Inr (xs ! 1) else Inl IndexError)"

text \<open>\<open>a[:, 1]\<close> on the array of class probabilities.\<close>

definition positive_class :: "real list list \<Rightarrow> py_error + real list" where
  "positive_class a =
     (if list_all (\<lambda>r. 1 < length r) a then Inr (map (\<lambda>r. r ! 1) a) else Inl IndexError)"

text \<open>
  Modelled from the spec: \<open>model.predict\<close> of the trained pipeline, the artifact
  \<open>data/best_churn_model.pkl\<close> that is not among the source files. The spec's words:
  "Probability is read as the positive-class (churn) probability; label is 1 iff
  probability > 0.5." One label per row of \<open>predict_proba\<close>.
\<close>

definition predict :: "model \<Rightarrow> dataframe \<Rightarrow> int list" where
  "predict m df = map (\<lambda>r. if 1 < length r \<and> 1 / 2 < r ! 1 then 1 else 0) (predict_proba m df)"

text \<open>\<open>pd.DataFrame([customer_data])\<close>: one row, the dictionary's keys in their order.\<close>

definition single_row_frame :: "(string \<times> cell) list \<Rightarrow> dataframe" where
  "single_row_frame customer_data =
     \<lparr>columns = map (\<lambda>kv. (fst kv, [snd kv])) customer_data, nrows = 1\<rparr>"

record prediction_result =
  prediction :: int
  churn_probability :: real
  shap_values :: "real list"
  feature_names :: "string list"

definition predict_single ::
  "(string \<Rightarrow> real option) \<Rightarrow> model \<Rightarrow> (string \<times> cell) list \<Rightarrow> py_error + prediction_result" where
  "predict_single parse m customer_data =
     (let df = single_row_frame customer_data;
          df_clean = clean_data parse df
      in bind_err (item0 (predict m df_clean)) (\<lambda>pred.
         bind_err (bind_err (item0 (predict_proba m df_clean)) item1) (\<lambda>prob.
         bind_err (calculate_shap_values m df_clean) (\<lambda>sv.
           Inr \<lparr>prediction = pred, churn_probability = prob,
                shap_values = fst sv, feature_names = snd sv\<rparr>))))"

text \<open>
  \<open>df[name] = values\<close>: an existing column is replaced in its place, a new one is
  appended; values of another length than the frame raise.
\<close>

definition set_column :: "string \<Rightarrow> cell list \<Rightarrow> dataframe \<Rightarrow> py_error + dataframe" where
  "set_column name vals df =
     (if length vals \<noteq> nrows df then Inl ValueError
      else if name \<in> set (column_names df) then Inr (map_column name (\<lambda>old. vals) df)
      else Inr (df\<lparr>columns := columns df @ [(name, vals)]\<rparr>))"

text \<open>\<open>df[mask]\<close> with a boolean array: the rows where the mask holds, in order.\<close>

definition select_rows :: "bool list \<Rightarrow> 'a list \<Rightarrow> 'a list" where
  "select_rows keep vs = map snd (filter fst (zip keep vs))"

definition boolean_index :: "dataframe \<Rightarrow> bool list \<Rightarrow> py_error + dataframe" where
  "boolean_index df keep =
     (if length keep \<noteq> nrows df then Inl ValueError
      else Inr \<lparr>columns = map (\<lambda>c. (fst c, select_rows keep (snd c))) (columns df),
                nrows = length (filter id keep)\<rparr>)"

text \<open>\<open>probs > 0.6\<close> and \<open>np.where(probs > 0.6, 'High', 'Low')\<close>, elementwise.\<close>

definition high_risk_mask :: "real list \<Rightarrow> bool list" where
  "high_risk_mask probs = map (\<lambda>p. 6 / 10 < p) probs"

definition risk_level :: "real list \<Rightarrow> cell list" where
  "risk_level probs = map (\<lambda>p. if 6 / 10 < p then Str ''High'' else Str ''Low'') probs"

definition predict_batch ::
  "(string \<Rightarrow> real option) \<Rightarrow> model \<Rightarrow> dataframe \<Rightarrow> bool \<Rightarrow>
     py_error + (dataframe \<times> dataframe \<times> real list \<times> shap_aggregate option)" where
  "predict_batch parse m df include_shap =
     (let df_clean = clean_data parse df
      in bind_err (positive_class (predict_proba m df_clean)) (\<lambda>probs.
         bind_err (set_column ''Churn_Probability'' (map Num probs) df) (\<lambda>r1.
         bind_err (set_column ''Risk_Level'' (risk_level probs) r1) (\<lambda>results_df.
           if include_shap \<and> True \<in> set (high_risk_mask probs)
           then bind_err (boolean_index df_clean (high_risk_mask probs)) (\<lambda>high_risk_data.
                bind_err (calculate_batch_shap_aggregate m high_risk_data) (\<lambda>shap_agg.
                  Inr (results_df, df_clean, probs, shap_agg)))
           else Inr (results_df, df_clean, probs, None)))))"

section \<open>services/batch\_service.py\<close>

text \<open>
  What \<open>analyze_high_risk_group\<close> takes from pandas and from Python's string formatting:
  \<open>Series.mode()\<close>, \<open>Series.mean()\<close> (which raises on a column of strings), the formats
  \<open>{x:.Nf}\<close>, \<open>{v}\<close> of a cell and \<open>{n}\<close> of a count.
\<close>

record stats_lib =
  series_mode :: "cell list \<Rightarrow> cell list"
  series_mean :: "cell list \<Rightarrow> py_error + real"
  format_fixed :: "nat \<Rightarrow> real \<Rightarrow> string"
  format_value :: "cell \<Rightarrow> string"
  format_int :: "nat \<Rightarrow> string"

definition newline :: string where
  "newline = [CHR 0x0A]"

definition join :: "string \<Rightarrow> string list \<Rightarrow> string" where
  "join sep xs = (case xs of [] \<Rightarrow> [] | x # rest \<Rightarrow> x @ concat (map (\<lambda>y. sep @ y) rest))"

definition sentinel_summary :: string where
  "sentinel_summary = ''Great news! Very few high-risk customers detected.''"

text \<open>The subset the cohort statistics are taken over: \<open>df_clean[probs > 0.6]\<close>.\<close>

definition high_risk_rows :: "dataframe \<Rightarrow> real list \<Rightarrow> py_error + dataframe" where
  "high_risk_rows df_clean probs = boolean_index df_clean (high_risk_mask probs)"

text \<open>One round of the loop over the four categorical columns.\<close>

definition cat_entry :: "stats_lib \<Rightarrow> dataframe \<Rightarrow> string \<Rightarrow> string list" where
  "cat_entry lib high_risk_df col =
     (case get_column high_risk_df col of
        None \<Rightarrow> []
      | Some vs \<Rightarrow>
          (case series_mode lib vs of
             [] \<Rightarrow> []
           | top_val # _ \<Rightarrow> [col @ '': '' @ format_value lib top_val]))"

definition column_mean :: "stats_lib \<Rightarrow> dataframe \<Rightarrow> string \<Rightarrow> py_error + real" where
  "column_mean lib high_risk_df col =
     (case get_column high_risk_df col of None \<Rightarrow> Inr 0 | Some vs \<Rightarrow> series_mean lib vs)"

text \<open>The lines of the drivers, numbered from \<open>i\<close>.\<close>

fun shap_lines :: "stats_lib \<Rightarrow> nat \<Rightarrow> (string \<times> real) list \<Rightarrow> string" where
  "shap_lines lib i [] = []"
| "shap_lines lib i (f # fs) =
     newline @ ''      '' @ format_int lib i @ ''. '' @ fst f @ '': '' @
       format_fixed lib 3 (snd f) @ '' (avg impact)'' @ shap_lines lib (Suc i) fs"

definition shap_insights :: "stats_lib \<Rightarrow> shap_aggregate option \<Rightarrow> string" where
  "shap_insights lib shap_agg =
     (case shap_agg of
        None \<Rightarrow> []
      | Some a \<Rightarrow>
          if top_features a = [] then []
          else newline @ ''    - Top Churn Drivers (Feature Importance):'' @
               shap_lines lib 1 (py_prefix (top_features a) 5))"

definition analyze_high_risk_group ::
  "stats_lib \<Rightarrow> dataframe \<Rightarrow> real list \<Rightarrow> shap_aggregate option \<Rightarrow> py_error + string" where
  "analyze_high_risk_group lib df_clean probs shap_agg =
     bind_err (high_risk_rows df_clean probs) (\<lambda>high_risk_df.
       let total_customers = nrows df_clean;
           churn_rate = (if 0 < total_customers
                         then real (nrows high_risk_df) / real total_customers * 100 else 0)
       in if df_empty high_risk_df then Inr sentinel_summary
          else
            let cat_summary = concat (map (cat_entry lib high_risk_df)
                  [''Contract'', ''InternetService'', ''PaymentMethod'', ''TechSupport''])
            in bind_err (column_mean lib high_risk_df ''tenure'') (\<lambda>avg_tenure.
               bind_err (column_mean lib high_risk_df ''MonthlyCharges'') (\<lambda>avg_charge.
                 Inr (newline @ ''    - High Risk Customers: '' @
                        format_int lib (nrows high_risk_df) @ '' ('' @
                        format_fixed lib 1 churn_rate @ ''% of total)'' @
                      newline @ ''    - Average Tenure of Risk Group: '' @
                        format_fixed lib 1 avg_tenure @ '' months'' @
                      newline @ ''    - Average Monthly Charge: $'' @
                        format_fixed lib 2 avg_charge @
                      newline @ ''    - Common Patterns: '' @ join '', '' cat_summary @
                      newline @ ''    '' @
                      shap_insights lib shap_agg))))"

section \<open>Objects and mutation\<close>

text \<open>
  To say that a call leaves its argument alone, frames are objects in a heap: a
  reference is an index into the list of the objects allocated so far. \<open>df.copy()\<close> and
  \<open>df.drop(columns=...)\<close> allocate a new frame; \<open>df[name] = ...\<close> changes the frame
  \<open>df\<close> refers to, in place.
\<close>

type_synonym ref = nat
type_synonym heap = "dataframe list"

definition new_object :: "dataframe \<Rightarrow> heap \<Rightarrow> ref \<times> heap" where
  "new_object d h = (length h, h @ [d])"

definition df_copy :: "ref \<Rightarrow> heap \<Rightarrow> ref \<times> heap" where
  "df_copy r h = new_object (h ! r) h"

definition df_drop :: "string list \<Rightarrow> ref \<Rightarrow> heap \<Rightarrow> ref \<times> heap" where
  "df_drop names r h = new_object (drop_columns names (h ! r)) h"

definition assign_column :: "string \<Rightarrow> (cell list \<Rightarrow> cell list) \<Rightarrow> ref \<Rightarrow> heap \<Rightarrow> heap" where
  "assign_column name f r h = h[r := map_column name f (h ! r)]"

definition replace_step_heap :: "ref \<Rightarrow> string \<Rightarrow> heap \<Rightarrow> heap" where
  "replace_step_heap df col h =
     (if col \<in> set (column_names (h ! df))
      then assign_column col (map (replace_value ''No phone service'' ''No'')) df
             (assign_column col (map (replace_value ''No internet service'' ''No'')) df h)
      else h)"

text \<open>\<open>clean_data\<close> on the heap: the local name \<open>df\<close> is rebound as the source rebinds it.\<close>

definition clean_data_heap :: "(string \<Rightarrow> real option) \<Rightarrow> ref \<Rightarrow> heap \<Rightarrow> ref \<times> heap" where
  "clean_data_heap parse df0 h0 =
     (let (df1, h1) = df_copy df0 h0;
          (df2, h2) = (if ''customerID'' \<in> set (column_names (h1 ! df1))
                       then df_drop [''customerID''] df1 h1 else (df1, h1));
          (df3, h3) = (if ''Churn'' \<in> set (column_names (h2 ! df2))
                       then df_drop [''Churn''] df2 h2 else (df2, h2));
          h4 = (if ''TotalCharges'' \<in> set (column_names (h3 ! df3))
                then assign_column ''TotalCharges''
                       (map (fillna 0 \<circ> to_numeric_coerce parse)) df3 h3
                else h3)
      in (df3, fold (replace_step_heap df3) replace_cols h4))"

text \<open>\<open>results_df[name] = values\<close> on the heap.\<close>

definition set_column_heap :: "string \<Rightarrow> cell list \<Rightarrow> ref \<Rightarrow> heap \<Rightarrow> py_error + heap" where
  "set_column_heap name vals r h =
     bind_err (set_column name vals (h ! r)) (\<lambda>d. Inr (h[r := d]))"

definition predict_batch_heap ::
  "(string \<Rightarrow> real option) \<Rightarrow> model \<Rightarrow> ref \<Rightarrow> bool \<Rightarrow> heap \<Rightarrow>
     py_error + ((ref \<times> ref \<times> real list \<times> shap_aggregate option) \<times> heap)" where
  "predict_batch_heap parse m df include_shap h0 =
     (let (df_clean, h1) = clean_data_heap parse df h0
      in bind_err (positive_class (predict_proba m (h1 ! df_clean))) (\<lambda>probs.
         let (results_df, h2) = df_copy df h1
         in bind_err (set_column_heap ''Churn_Probability'' (map Num probs) results_df h2) (\<lambda>h3.
            bind_err (set_column_heap ''Risk_Level'' (risk_level probs) results_df h3) (\<lambda>h4.
              if include_shap \<and> True \<in> set (high_risk_mask probs)
              then bind_err (boolean_index (h4 ! df_clean) (high_risk_mask probs)) (\<lambda>d.
                   let (high_risk_data, h5) = new_object d h4
                   in bind_err (calculate_batch_shap_aggregate m (h5 ! high_risk_data)) (\<lambda>shap_agg.
                        Inr ((results_df, df_clean, probs, shap_agg), h5)))
              else Inr ((results_df, df_clean, probs, None), h4)))))"

section \<open>The predictor and the explainer, from the spec\<close>

text \<open>
  The classifier and \<open>shap.TreeExplainer\<close> built on it are not among the source files. For
  the additive consistency of the attributions they are modelled from the spec, over one
  parameter: \<open>expected k\<close>, the model's expected churn probability over the reference
  distribution when the encoded features that \<open>k\<close> gives are known. With every feature of a
  row known it is the probability of the row; with none known it is the baseline.
\<close>









section \<open>An example artifact\<close>

text \<open>
  A small pipeline to run the service on: the encoder one-hot encodes \<open>Contract\<close> and
  passes \<open>tenure\<close> through, the classifier's churn probability falls with tenure, and
  the explainer returns one array of the shape of its input.
\<close>

definition example_onehot :: "cell \<Rightarrow> real list" where
  "example_onehot v =
     (if v = Str ''Month-to-month'' then [1, 0, 0]
      else if v = Str ''One year'' then [0, 1, 0] else [0, 0, 1])"

definition example_number :: "cell \<Rightarrow> real" where
  "example_number v = (case v of Num x \<Rightarrow> x | Str s \<Rightarrow> 0 | NaN \<Rightarrow> 0)"

definition example_transform :: "dataframe \<Rightarrow> real list list" where
  "example_transform df =
     (case get_column df ''Contract'' of
        None \<Rightarrow> []
      | Some cs \<Rightarrow>
          (case get_column df ''tenure'' of
             None \<Rightarrow> []
           | Some ts \<Rightarrow> map (\<lambda>ct. example_onehot (fst ct) @ [example_number (snd ct)]) (zip cs ts)))"

definition example_proba :: "dataframe \<Rightarrow> real list list" where
  "example_proba df =
     (case get_column df ''tenure'' of
        None \<Rightarrow> []
      | Some ts \<Rightarrow>
          map (\<lambda>t. if example_number t < 12 then [1 / 5, 4 / 5]
                   else if example_number t < 24 then [2 / 5, 3 / 5]
                   else [1 / 2, 1 / 2]) ts)"

definition example_model :: model where
  "example_model =
     \<lparr>preprocessor_transform = example_transform,
      predict_proba = example_proba,
      explainer_shap_values = (\<lambda>x. Single (map (map (\<lambda>v. v / 10)) x))\<rparr>"

definition example_parse :: "string \<Rightarrow> real option" where
  "example_parse s = (if s = ''95.0'' then Some 95 else if s = ''840.0'' then Some 840 else None)"

definition example_batch :: dataframe where
  "example_batch =
     \<lparr>columns = [(''customerID'', [Str ''c1'', Str ''c2'', Str ''c3'', Str ''c4'']),
                 (''Contract'', [Str ''Month-to-month'', Str ''One year'', Str ''Two year'',
                                Str ''One year'']),
                 (''tenure'', [Num 1, Num 12, Num 60, Num 5]),
                 (''TotalCharges'', [Str ''95.0'', Str '' '', Str ''840.0'', NaN])],
      nrows = 4\<rparr>"

definition example_batch_clean :: dataframe where
  "example_batch_clean =
     \<lparr>columns = [(''Contract'', [Str ''Month-to-month'', Str ''One year'', Str ''Two year'',
                                Str ''One year'']),
                 (''tenure'', [Num 1, Num 12, Num 60, Num 5]),
                 (''TotalCharges'', [Num 95, Num 0, Num 840, Num 0])],
      nrows = 4\<rparr>"

definition example_customer :: "(string \<times> cell) list" where
  "example_customer =
     [(''Contract'', Str ''Month-to-month''), (''tenure'', Num 1), (''TotalCharges'', Str ''95.0'')]"

definition example_lib :: stats_lib where
  "example_lib =
     \<lparr>series_mode = (\<lambda>vs. take 1 vs),
      series_mean = (\<lambda>vs. Inr (sum_list (map example_number vs) / real (length vs))),
      format_fixed = (\<lambda>n x. ''#''),
      format_value = (\<lambda>v. case v of Str s \<Rightarrow> s | Num x \<Rightarrow> ''#'' | NaN \<Rightarrow> ''nan''),
      format_int = (\<lambda>n. ''#'')\<rparr>"



section \<open>Normalisation: what each column becomes\<close>

definition kept :: "string \<times> cell list \<Rightarrow> bool" where
  "kept c = (fst c \<noteq> ''customerID'' \<and> fst c \<noteq> ''Churn'')"

definition clean_cell :: "(string \<Rightarrow> real option) \<Rightarrow> string \<Rightarrow> cell \<Rightarrow> cell" where
  "clean_cell parse name v =
     (if name = ''TotalCharges'' then fillna 0 (to_numeric_coerce parse v)
      else if name \<in> set replace_cols
      then replace_value ''No phone service'' ''No''
             (replace_value ''No internet service'' ''No'' v)
      else v)"

definition clean_column :: "(string \<Rightarrow> real option) \<Rightarrow> string \<times> cell list \<Rightarrow> string \<times> cell list" where
  "clean_column parse c = (fst c, map (clean_cell parse (fst c)) (snd c))"

lemma map_column_absent:
  "name \<notin> set (column_names df) \<Longrightarrow> map_column name f df = df"
proof -
  assume a: "name \<notin> set (column_names df)"
  have "map (\<lambda>c. if fst c = name then (fst c, f (snd c)) else c) xs = xs"
    if "name \<notin> fst ` set xs" for xs :: "(string \<times> cell list) list"
    using that by (induction xs) auto
  from this[of "columns df"] a show ?thesis
    by (simp add: map_column_def column_names_def)
qed

lemma drop_absent:
  "name \<notin> set (column_names df) \<Longrightarrow> filter (\<lambda>c. fst c \<noteq> name) (columns df) = columns df"
  by (auto simp: column_names_def filter_id_conv)

lemma replace_step_eq:
  "replace_step col df =
     map_column col (map (replace_value ''No phone service'' ''No'' \<circ>
                          replace_value ''No internet service'' ''No'')) df"
proof (cases "col \<in> set (column_names df)")
  case True
  then show ?thesis
    by (simp add: replace_step_def map_column_def comp_def)
next
  case False
  then show ?thesis
    by (simp add: replace_step_def map_column_absent)
qed

lemma fold_map_column:
  "distinct cs \<Longrightarrow>
   fold (\<lambda>c. map_column c f) cs df =
   df\<lparr>columns := map (\<lambda>c. if fst c \<in> set cs then (fst c, f (snd c)) else c) (columns df)\<rparr>"
proof (induction cs arbitrary: df)
  case Nil
  then show ?case by simp
next
  case (Cons a cs)
  have "map (\<lambda>c. if fst c \<in> set cs then (fst c, f (snd c)) else c)
          (map (\<lambda>c. if fst c = a then (fst c, f (snd c)) else c) xs) =
        map (\<lambda>c. if fst c \<in> set (a # cs) then (fst c, f (snd c)) else c) xs" for xs
    using Cons.prems by (induction xs) auto
  with Cons show ?case by (simp add: map_column_def)
qed

lemma distinct_replace_cols: "distinct replace_cols"
  by (simp add: replace_cols_def)

lemma TotalCharges_not_replaced: "''TotalCharges'' \<notin> set replace_cols"
  by (simp add: replace_cols_def)

lemma clean_data_columns:
  "columns (clean_data parse df) = map (clean_column parse) (filter kept (columns df))"
proof -
  let ?d1 = "if ''customerID'' \<in> set (column_names df) then drop_columns [''customerID''] df else df"
  let ?d2 = "if ''Churn'' \<in> set (column_names ?d1) then drop_columns [''Churn''] ?d1 else ?d1"
  let ?g = "map (fillna 0 \<circ> to_numeric_coerce parse)"
  let ?d3 = "if ''TotalCharges'' \<in> set (column_names ?d2) then map_column ''TotalCharges'' ?g ?d2 else ?d2"
  let ?r = "map (replace_value ''No phone service'' ''No'' \<circ> replace_value ''No internet service'' ''No'')"
  have d1: "columns ?d1 = filter (\<lambda>c. fst c \<noteq> ''customerID'') (columns df)"
    using drop_absent[of "''customerID''" df] by (simp add: drop_columns_def)
  have d2: "columns ?d2 = filter (\<lambda>c. fst c \<noteq> ''Churn'') (columns ?d1)"
    using drop_absent[of "''Churn''" ?d1] by (simp add: drop_columns_def)
  have d12: "columns ?d2 = filter kept (columns df)"
    unfolding d2 d1 by (auto simp: kept_def intro!: filter_cong)
  have d3: "?d3 = map_column ''TotalCharges'' ?g ?d2"
    using map_column_absent[of "''TotalCharges''" ?d2 ?g] by presburger
  have fold_eq: "fold replace_step replace_cols = fold (\<lambda>c. map_column c ?r) replace_cols"
    using replace_step_eq by (intro arg_cong2[where f=fold] ext) auto
  have "clean_data parse df = fold (\<lambda>c. map_column c ?r) replace_cols (map_column ''TotalCharges'' ?g ?d2)"
    unfolding clean_data_def Let_def fold_eq d3 ..
  then have "columns (clean_data parse df) =
      map (\<lambda>c. if fst c \<in> set replace_cols then (fst c, ?r (snd c)) else c)
        (map (\<lambda>c. if fst c = ''TotalCharges'' then (fst c, ?g (snd c)) else c) (filter kept (columns df)))"
    by (simp add: fold_map_column[OF distinct_replace_cols] map_column_def d12)
  also have "\<dots> = map (clean_column parse) (filter kept (columns df))"
    using TotalCharges_not_replaced
    by (auto simp: clean_column_def clean_cell_def comp_def map_idI prod_eq_iff)
  finally show ?thesis .
qed

lemma clean_data_nrows: "nrows (clean_data parse df) = nrows df"
proof -
  have step: "nrows (fold replace_step cs d) = nrows d" for cs d
    by (induction cs arbitrary: d) (simp_all add: replace_step_def map_column_def)
  show ?thesis
    by (simp add: clean_data_def Let_def step map_column_def drop_columns_def)
qed

lemma clean_cell_idem: "clean_cell parse n (clean_cell parse n v) = clean_cell parse n v"
  by (cases v) (auto simp: clean_cell_def split: option.splits)

lemma clean_column_idem: "clean_column parse (clean_column parse c) = clean_column parse c"
  by (simp add: clean_column_def clean_cell_idem)

lemma kept_clean_column: "kept (clean_column parse c) = kept c"
  by (simp add: kept_def clean_column_def)

lemma filter_kept_clean:
  "filter kept (map (clean_column parse) xs) = map (clean_column parse) (filter kept xs)"
  by (induction xs) (simp_all add: kept_clean_column)

lemma get_column_clean:
  "map_of (map (clean_column parse) (filter kept xs)) n =
     (if n = ''customerID'' \<or> n = ''Churn'' then None
      else map_option (map (clean_cell parse n)) (map_of xs n))"
  by (induction xs) (auto simp: kept_def clean_column_def)

section \<open>Claims about normalisation\<close>

text \<open>
  C3. Normalisation is idempotent: for every parser of numeric strings and every table,
  cleaning a cleaned table gives the cleaned table again, columns and row count alike.
\<close>

theorem clean_data_idempotent:
  "clean_data parse (clean_data parse df) = clean_data parse df"
proof (rule dataframe.equality)
  show "columns (clean_data parse (clean_data parse df)) = columns (clean_data parse df)"
    by (simp add: clean_data_columns filter_kept_clean clean_column_idem)
  show "nrows (clean_data parse (clean_data parse df)) = nrows (clean_data parse df)"
    by (simp add: clean_data_nrows)
qed simp

text \<open>
  C6. When the table has a TotalCharges column, the cleaned table has it too and each
  of its cells is a number: a string that parses becomes its value, a number stays, and
  a string that does not parse or a missing value becomes 0. In particular, when pandas
  does not read the blank string \<open>" "\<close> as a number, a cell holding it becomes 0.
  \<open>clean_data\<close> is a total function here: no cell makes it fail.
\<close>

theorem clean_data_TotalCharges:
  assumes "get_column df ''TotalCharges'' = Some vs"
  shows "get_column (clean_data parse df) ''TotalCharges'' =
           Some (map (\<lambda>v. case v of
                        Str s \<Rightarrow> (case parse s of Some x \<Rightarrow> Num x | None \<Rightarrow> Num 0)
                      | Num x \<Rightarrow> Num x
                      | NaN \<Rightarrow> Num 0) vs)
         \<and> (parse '' '' = None \<longrightarrow>
              (\<forall>ws. get_column (clean_data parse df) ''TotalCharges'' = Some ws \<longrightarrow>
                 (\<forall>i < length vs. vs ! i = Str '' '' \<longrightarrow> ws ! i = Num 0)))"
proof -
  have cell: "clean_cell parse ''TotalCharges'' v =
      (case v of Str s \<Rightarrow> (case parse s of Some x \<Rightarrow> Num x | None \<Rightarrow> Num 0)
               | Num x \<Rightarrow> Num x | NaN \<Rightarrow> Num 0)" for v
    by (cases v) (simp_all add: clean_cell_def split: option.splits)
  have col: "get_column (clean_data parse df) ''TotalCharges'' =
      Some (map (clean_cell parse ''TotalCharges'') vs)"
    using assms by (simp add: get_column_def clean_data_columns get_column_clean)
  show ?thesis
    unfolding col by (simp add: cell)
qed

theorem clean_data_TotalCharges_witness:
  "get_column (clean_data (\<lambda>s. if s = ''840.0'' then Some 840 else None)
       \<lparr>columns = [(''customerID'', [Str ''a'', Str ''b'', Str ''c'']),
                   (''TotalCharges'', [Str '' '', Str ''840.0'', NaN])], nrows = 3\<rparr>)
     ''TotalCharges'' = Some [Num 0, Num 840, Num 0]"
  using clean_data_TotalCharges
    [of "\<lparr>columns = [(''customerID'', [Str ''a'', Str ''b'', Str ''c'']),
                     (''TotalCharges'', [Str '' '', Str ''840.0'', NaN])], nrows = 3\<rparr>"
        "[Str '' '', Str ''840.0'', NaN]" "\<lambda>s. if s = ''840.0'' then Some 840 else None"]
  by (simp add: get_column_def)

section \<open>Ranking by absolute contribution\<close>

lemma sort_by_abs_desc_mset: "mset (sort_by_abs_desc feats) = mset feats"
  by (simp add: sort_by_abs_desc_def)

lemma sort_by_abs_desc_sorted:
  "sorted_wrt (\<lambda>a b. \<bar>snd b\<bar> \<le> \<bar>snd a\<bar>) (sort_by_abs_desc feats)"
proof -
  have "sorted (map (\<lambda>x. - \<bar>snd x\<bar>) (sort_by_abs_desc feats))"
    unfolding sort_by_abs_desc_def by (rule sorted_sort_key)
  then show ?thesis by (simp add: sorted_map)
qed

lemma sort_by_abs_desc_stable:
  "filter (\<lambda>x. \<bar>snd x\<bar> = k) (sort_by_abs_desc feats) = filter (\<lambda>x. \<bar>snd x\<bar> = k) feats"
proof -
  have "filter (\<lambda>x. - \<bar>snd x\<bar> = - k) (sort_key (\<lambda>x. - \<bar>snd x\<bar>) feats) =
        filter (\<lambda>x. - \<bar>snd x\<bar> = - k) feats"
    by (rule sort_key_stable)
  then show ?thesis by (simp add: sort_by_abs_desc_def)
qed

text \<open>
  C8. \<open>get_top_features\<close> is a function of its arguments, so two calls on the same input
  agree. For a count \<open>top_n \<ge> 0\<close> the result is the first \<open>top_n\<close> entries of a ranking
  of the (name, value) pairs that is a rearrangement of the pairs, in descending order of
  absolute value, with the pairs of any one absolute value in their original order.
\<close>

theorem get_top_features_ranking:
  assumes "0 \<le> top_n"
  shows "get_top_features vals names top_n =
           take (nat top_n) (sort_by_abs_desc (zip names vals))
         \<and> mset (sort_by_abs_desc (zip names vals)) =
             mset (zip names vals)
         \<and> sorted_wrt (\<lambda>a b. \<bar>snd b\<bar> \<le> \<bar>snd a\<bar>)
             (sort_by_abs_desc (zip names vals))
         \<and> (\<forall>k. filter (\<lambda>x. \<bar>snd x\<bar> = k) (sort_by_abs_desc (zip names vals)) =
                  filter (\<lambda>x. \<bar>snd x\<bar> = k) (zip names vals))
         \<and> sorted_wrt (\<lambda>a b. \<bar>snd b\<bar> \<le> \<bar>snd a\<bar>)
             (get_top_features vals names top_n)
         \<and> length (get_top_features vals names top_n) =
             min (nat top_n) (min (length names) (length vals))"
proof -
  have eq: "get_top_features vals names top_n =
      take (nat top_n) (sort_by_abs_desc (zip names vals))"
    using assms by (simp add: get_top_features_def py_prefix_def)
  have len: "length (sort_by_abs_desc (zip names vals)) =
      min (length names) (length vals)"
    by (simp add: sort_by_abs_desc_def)
  show ?thesis
    unfolding eq
    by (simp add: sort_by_abs_desc_mset sort_by_abs_desc_sorted sort_by_abs_desc_stable len)
qed

theorem get_top_features_ranking_witness:
  "get_top_features [1/10, - 1/2, 1/2, 1/5] [''a'', ''b'', ''c'', ''d''] 3 =
     [(''b'', - 1/2), (''c'', 1/2), (''d'', 1/5)]"
  using get_top_features_ranking [of 3 "[1/10, - 1/2, 1/2, 1/5]" "[''a'', ''b'', ''c'', ''d'']"]
  by (simp add: sort_by_abs_desc_def)

section \<open>Risk tiers and the high-risk subset\<close>

lemma bind_err_Inr:
  "bind_err r f = Inr y \<longleftrightarrow> (\<exists>x. r = Inr x \<and> f x = Inr y)"
  by (cases r) (simp_all add: bind_err_def)







lemma clean_example_batch: "clean_data example_parse example_batch = example_batch_clean"
proof (rule dataframe.equality)
  show "columns (clean_data example_parse example_batch) = columns example_batch_clean"
    by (simp add: clean_data_columns example_batch_def example_batch_clean_def kept_def
        clean_column_def clean_cell_def replace_cols_def example_parse_def)
  show "nrows (clean_data example_parse example_batch) = nrows example_batch_clean"
    by (simp add: clean_data_nrows example_batch_def example_batch_clean_def)
qed simp

lemma example_batch_probs:
  "positive_class (predict_proba example_model example_batch_clean) =
     Inr [4 / 5, 3 / 5, 1 / 2, 4 / 5]"
  by (simp add: example_batch_clean_def example_model_def example_proba_def get_column_def
      example_number_def positive_class_def)



section \<open>The empty cohort\<close>

text \<open>
  C7. When the probabilities are one per row of the cleaned table and none of them is
  strictly greater than 0.6, \<open>analyze_high_risk_group\<close> returns, without raising, the
  fixed sentence about very few high-risk customers, whatever the table, the library
  functions and the attribution aggregate are.
\<close>

theorem empty_high_risk_sentinel:
  assumes "length probs = nrows df_clean"
    and "\<forall>p \<in> set probs. p \<le> 6 / 10"
  shows "analyze_high_risk_group lib df_clean probs shap_agg =
           Inr ''Great news! Very few high-risk customers detected.''"
proof -
  have "filter id (high_risk_mask probs) = []"
    using assms(2) by (auto simp: high_risk_mask_def filter_empty_conv)
  then have "\<exists>h. high_risk_rows df_clean probs = Inr h \<and> df_empty h"
    using assms(1) by (simp add: high_risk_rows_def boolean_index_def high_risk_mask_def df_empty_def)
  then show ?thesis
    by (auto simp: analyze_high_risk_group_def bind_err_def Let_def sentinel_summary_def)
qed

theorem empty_high_risk_sentinel_witness:
  "analyze_high_risk_group example_lib example_batch_clean [6 / 10, 1 / 10, 1 / 2, 0] None =
     Inr ''Great news! Very few high-risk customers detected.''"
  using empty_high_risk_sentinel
    [of "[6 / 10, 1 / 10, 1 / 2, 0]" example_batch_clean example_lib None]
  by (simp add: example_batch_clean_def)

section \<open>Single predictions\<close>

text \<open>
  C5. Whenever \<open>predict_single\<close> returns, its label is 1 exactly when the churn
  probability it returns (the second entry of the first row of \<open>predict_proba\<close>) is
  strictly greater than 0.5, and 0 otherwise, so also at exactly 0.5. The label comes from
  the pipeline's \<open>predict\<close>, which is modelled from the spec.
\<close>

theorem predict_single_label:
  assumes "predict_single parse m customer_data = Inr r"
  shows "(prediction r = 1 \<longleftrightarrow> 1 / 2 < churn_probability r)
         \<and> (prediction r = 0 \<longleftrightarrow> churn_probability r \<le> 1 / 2)"
proof -
  let ?d = "clean_data parse (single_row_frame customer_data)"
  from assms obtain row where
    row: "predict_proba m ?d \<noteq> []" "row = hd (predict_proba m ?d)"
    and pr: "item0 (predict m ?d) = Inr (prediction r)"
    and pb: "item1 row = Inr (churn_probability r)"
    by (auto simp: predict_single_def Let_def bind_err_Inr item0_def split: list.splits)
  from row pr have "prediction r = (if 1 < length row \<and> 1 / 2 < row ! 1 then 1 else 0)"
    by (cases "predict_proba m ?d") (auto simp: predict_def item0_def)
  moreover from pb have "1 < length row" "churn_probability r = row ! 1"
    by (auto simp: item1_def split: if_splits)
  ultimately show ?thesis by auto
qed


lemma clean_example_customer:
  "clean_data example_parse (single_row_frame example_customer) =
     \<lparr>columns = [(''Contract'', [Str ''Month-to-month'']), (''tenure'', [Num 1]),
                 (''TotalCharges'', [Num 95])], nrows = 1\<rparr>"
proof (rule dataframe.equality)
  show "columns (clean_data example_parse (single_row_frame example_customer)) =
      columns \<lparr>columns = [(''Contract'', [Str ''Month-to-month'']), (''tenure'', [Num 1]),
                 (''TotalCharges'', [Num 95])], nrows = 1\<rparr>"
    by (simp add: clean_data_columns single_row_frame_def example_customer_def kept_def
        clean_column_def clean_cell_def replace_cols_def example_parse_def)
  show "nrows (clean_data example_parse (single_row_frame example_customer)) =
      nrows \<lparr>columns = [(''Contract'', [Str ''Month-to-month'']), (''tenure'', [Num 1]),
                 (''TotalCharges'', [Num 95])], nrows = 1\<rparr>"
    by (simp add: clean_data_nrows single_row_frame_def)
qed simp

lemma example_predict_single:
  "predict_single example_parse example_model example_customer =
     Inr \<lparr>prediction = 1, churn_probability = 4 / 5,
          shap_values = [1 / 10, 0, 0, 1 / 10],
          feature_names = [''Contract'', ''tenure'', ''TotalCharges'']\<rparr>"
  by (simp add: predict_single_def clean_example_customer predict_def example_model_def
      example_proba_def example_transform_def example_onehot_def example_number_def
      get_column_def column_names_def item0_def item1_def bind_err_def
      calculate_shap_values_def select_class1_def)

theorem predict_single_label_witness:
  "prediction \<lparr>prediction = 1, churn_probability = 4 / 5,
          shap_values = [1 / 10, 0, 0, 1 / 10],
          feature_names = [''Contract'', ''tenure'', ''TotalCharges'']\<rparr> = 1
   \<and> (1::real) / 2 < churn_probability \<lparr>prediction = 1, churn_probability = 4 / 5,
          shap_values = [1 / 10, 0, 0, 1 / 10],
          feature_names = [''Contract'', ''tenure'', ''TotalCharges'']\<rparr>"
  using predict_single_label [OF example_predict_single]
  by simp

section \<open>Attribution output of a single prediction\<close>

lemma example_customer_encoded:
  "preprocessor_transform example_model
     (clean_data example_parse (single_row_frame example_customer)) = [[1, 0, 0, 1]]"
  by (simp add: clean_example_customer example_model_def example_transform_def get_column_def
      example_onehot_def example_number_def)

text \<open>
  C1. The code at an input where the claim fails. The example encoder turns \<open>Contract\<close>
  into three indicator features, so the encoded row of a customer of three fields has four
  features. \<open>predict_single\<close> returns four attribution values and three feature names,
  the labels of the cleaned record: \<open>calculate_shap_values\<close> takes the names from the frame
  before encoding. \<open>get_top_features\<close>, which pairs the two lists by position, then gives
  \<open>tenure\<close> the contribution 0 of an indicator of \<open>Contract\<close>, and the contribution 1/10
  of \<open>tenure\<close> has no name.
\<close>

theorem shap_names_mismatch:
  "predict_single example_parse example_model example_customer =
     Inr \<lparr>prediction = 1, churn_probability = 4 / 5,
          shap_values = [1 / 10, 0, 0, 1 / 10],
          feature_names = [''Contract'', ''tenure'', ''TotalCharges'']\<rparr>
   \<and> preprocessor_transform example_model
       (clean_data example_parse (single_row_frame example_customer)) = [[1, 0, 0, 1]]
   \<and> get_top_features [1 / 10, 0, 0, 1 / 10] [''Contract'', ''tenure'', ''TotalCharges''] 5 =
       [(''Contract'', 1 / 10), (''tenure'', 0), (''TotalCharges'', 0)]"
  by (simp add: example_predict_single example_customer_encoded get_top_features_def
      py_prefix_def sort_by_abs_desc_def)

section \<open>The batch attribution aggregate\<close>

lemma mean_abs_nonneg: "x \<in> set (mean_abs_axis0 a) \<Longrightarrow> 0 \<le> x"
  by (auto simp: mean_abs_axis0_def intro!: divide_nonneg_nonneg sum_list_nonneg)

lemma mean_abs_nth:
  "j < array_width a \<Longrightarrow>
   mean_abs_axis0 a ! j = sum_list (map (\<lambda>r. \<bar>r ! j\<bar>) a) / real (length a)"
  by (simp add: mean_abs_axis0_def)

lemma sort_nonneg_sorted:
  assumes "\<forall>x \<in> set feats. 0 \<le> snd x"
  shows "sorted_wrt (\<lambda>x y. snd y \<le> snd x) (sort_by_abs_desc feats)"
proof (rule sorted_wrt_mono_rel[OF _ sort_by_abs_desc_sorted])
  fix x y
  assume "x \<in> set (sort_by_abs_desc feats)" "y \<in> set (sort_by_abs_desc feats)"
    and "\<bar>snd y\<bar> \<le> \<bar>snd x\<bar>"
  with assms show "snd y \<le> snd x"
    by (simp add: sort_by_abs_desc_def)
qed

lemma sort_nonneg_stable:
  assumes "\<forall>x \<in> set feats. 0 \<le> snd x"
  shows "filter (\<lambda>x. snd x = k) (sort_by_abs_desc feats) = filter (\<lambda>x. snd x = k) feats"
proof -
  have "filter (\<lambda>x. snd x = k) xs = filter (\<lambda>x. \<bar>snd x\<bar> = k) xs"
    if "set xs = set feats" for xs
    using that assms by (intro filter_cong) auto
  note eq = this
  have s: "set (sort_by_abs_desc feats) = set feats"
    by (simp add: sort_by_abs_desc_def)
  from eq[OF refl] eq[OF s] show ?thesis
    by (simp add: sort_by_abs_desc_stable)
qed

text \<open>
  What holds of the aggregate for every pipeline. When \<open>predict_batch\<close> returns an
  aggregate, it is the one \<open>calculate_batch_shap_aggregate\<close> computes from the rows of the
  cleaned table whose probability is strictly greater than 0.6: its means are, encoded
  feature by encoded feature, the mean over these rows of the absolute contributions, and
  its ranked list is the first ten entries of the stable descending sort of the list that
  pairs the column labels of these rows with the means by position.
\<close>

lemma batch_aggregate_shape:
  assumes "predict_batch parse m df include_shap = Inr (results_df, df_clean, probs, Some agg)"
  shows "\<exists>h a. high_risk_rows df_clean probs = Inr h
           \<and> select_class1 (explainer_shap_values m (preprocessor_transform m h)) = Inr a
           \<and> mean_shap_values agg = mean_abs_axis0 a
           \<and> (\<forall>j < array_width a.
                 mean_shap_values agg ! j = sum_list (map (\<lambda>r. \<bar>r ! j\<bar>) a) / real (length a))
           \<and> top_features agg =
               take 10 (sort_by_abs_desc (zip (column_names h) (mean_shap_values agg)))
           \<and> mset (sort_by_abs_desc (zip (column_names h) (mean_shap_values agg))) =
               mset (zip (column_names h) (mean_shap_values agg))
           \<and> sorted_wrt (\<lambda>x y. snd y \<le> snd x)
               (sort_by_abs_desc (zip (column_names h) (mean_shap_values agg)))
           \<and> (\<forall>k. filter (\<lambda>x. snd x = k)
                      (sort_by_abs_desc (zip (column_names h) (mean_shap_values agg))) =
                    filter (\<lambda>x. snd x = k) (zip (column_names h) (mean_shap_values agg)))
           \<and> sorted_wrt (\<lambda>x y. snd y \<le> snd x) (top_features agg)
           \<and> length (top_features agg) \<le> 10"
proof -
  from assms obtain h where
    h: "high_risk_rows df_clean probs = Inr h"
    and agg: "calculate_batch_shap_aggregate m h = Inr (Some agg)"
    by (auto simp: predict_batch_def Let_def bind_err_Inr high_risk_rows_def split: if_splits)
  from agg obtain a where
    a: "select_class1 (explainer_shap_values m (preprocessor_transform m h)) = Inr a"
    and ag: "agg = \<lparr>top_features =
                     py_prefix (sort_by_abs_desc (zip (column_names h) (mean_abs_axis0 a))) 10,
                   mean_shap_values = mean_abs_axis0 a,
                   agg_feature_names = column_names h\<rparr>"
    by (auto simp: calculate_batch_shap_aggregate_def Let_def split: if_splits sum.splits)
  let ?feats = "zip (column_names h) (mean_abs_axis0 a)"
  have nonneg: "\<forall>x \<in> set ?feats. 0 \<le> snd x"
    by (auto dest!: set_zip_rightD intro: mean_abs_nonneg)
  have means: "mean_shap_values agg = mean_abs_axis0 a"
    and top: "top_features agg = take 10 (sort_by_abs_desc ?feats)"
    by (simp_all add: ag py_prefix_def)
  have nth: "\<forall>j < array_width a.
      mean_abs_axis0 a ! j = sum_list (map (\<lambda>r. \<bar>r ! j\<bar>) a) / real (length a)"
    by (simp add: mean_abs_nth)
  have srt: "sorted_wrt (\<lambda>x y. snd y \<le> snd x) (sort_by_abs_desc ?feats)"
    by (rule sort_nonneg_sorted[OF nonneg])
  have stb: "\<forall>k. filter (\<lambda>x. snd x = k) (sort_by_abs_desc ?feats) = filter (\<lambda>x. snd x = k) ?feats"
    by (simp add: sort_nonneg_stable[OF nonneg])
  have srt_top: "sorted_wrt (\<lambda>x y. snd y \<le> snd x) (take 10 (sort_by_abs_desc ?feats))"
    by (rule sorted_wrt_take[OF srt])
  have len: "length (take 10 (sort_by_abs_desc ?feats)) \<le> 10"
    by simp
  show ?thesis
    unfolding means top
    using h a nth sort_by_abs_desc_mset[of ?feats] srt stb srt_top len
    by (intro exI[of _ h] exI[of _ a] conjI) (assumption | rule refl)+
qed

lemma example_high_risk_rows:
  "boolean_index example_batch_clean (high_risk_mask [4 / 5, 3 / 5, 1 / 2, 4 / 5]) =
     Inr \<lparr>columns = [(''Contract'', [Str ''Month-to-month'', Str ''One year'']),
                    (''tenure'', [Num 1, Num 5]),
                    (''TotalCharges'', [Num 95, Num 0])], nrows = 2\<rparr>"
  by (simp add: boolean_index_def high_risk_mask_def example_batch_clean_def select_rows_def)

lemma example_mean_abs:
  "mean_abs_axis0 [[1 / 10, 0, 0, 1 / 10], [0, 1 / 10, 0, 1 / 2]] = [1 / 20, 1 / 20, 0, 3 / 10]"
proof -
  have "[0 ..< 4] = [0, 1, 2, 3::nat]"
    by (simp add: upt_rec)
  then show ?thesis
    by (simp add: mean_abs_axis0_def array_width_def)
qed

lemma example_aggregate:
  "calculate_batch_shap_aggregate example_model
     \<lparr>columns = [(''Contract'', [Str ''Month-to-month'', Str ''One year'']),
                 (''tenure'', [Num 1, Num 5]),
                 (''TotalCharges'', [Num 95, Num 0])], nrows = 2\<rparr> =
   Inr (Some \<lparr>top_features = [(''Contract'', 1 / 20), (''tenure'', 1 / 20), (''TotalCharges'', 0)],
              mean_shap_values = [1 / 20, 1 / 20, 0, 3 / 10],
              agg_feature_names = [''Contract'', ''tenure'', ''TotalCharges'']\<rparr>)"
proof -
  have x: "example_transform
     \<lparr>columns = [(''Contract'', [Str ''Month-to-month'', Str ''One year'']),
                 (''tenure'', [Num 1, Num 5]),
                 (''TotalCharges'', [Num 95, Num 0])], nrows = 2\<rparr> =
     [[1, 0, 0, 1], [0, 1, 0, 5]]"
    by (simp add: example_transform_def get_column_def example_onehot_def example_number_def)
  show ?thesis
    by (simp add: calculate_batch_shap_aggregate_def df_empty_def example_model_def x
        select_class1_def example_mean_abs column_names_def sort_by_abs_desc_def py_prefix_def
        Let_def)
qed


lemma example_predict_batch_shap:
  "predict_batch example_parse example_model example_batch True =
     Inr (\<lparr>columns = columns example_batch @
                [(''Churn_Probability'', [Num (4 / 5), Num (3 / 5), Num (1 / 2), Num (4 / 5)]),
                 (''Risk_Level'', [Str ''High'', Str ''Low'', Str ''Low'', Str ''High''])],
            nrows = 4\<rparr>,
          example_batch_clean, [4 / 5, 3 / 5, 1 / 2, 4 / 5],
          Some \<lparr>top_features = [(''Contract'', 1 / 20), (''tenure'', 1 / 20), (''TotalCharges'', 0)],
              mean_shap_values = [1 / 20, 1 / 20, 0, 3 / 10],
              agg_feature_names = [''Contract'', ''tenure'', ''TotalCharges'']\<rparr>)"
proof -
  have n: "nrows example_batch = 4"
    and c: "column_names example_batch = [''customerID'', ''Contract'', ''tenure'', ''TotalCharges'']"
    by (simp_all add: example_batch_def column_names_def)
  have s1: "set_column ''Churn_Probability'' [Num (4 / 5), Num (3 / 5), Num (1 / 2), Num (4 / 5)] example_batch =
      Inr (example_batch\<lparr>columns := columns example_batch @
             [(''Churn_Probability'', [Num (4 / 5), Num (3 / 5), Num (1 / 2), Num (4 / 5)])]\<rparr>)"
    by (simp add: set_column_def n c)
  have s2: "set_column ''Risk_Level'' (risk_level [4 / 5, 3 / 5, 1 / 2, 4 / 5])
       (example_batch\<lparr>columns := columns example_batch @
             [(''Churn_Probability'', [Num (4 / 5), Num (3 / 5), Num (1 / 2), Num (4 / 5)])]\<rparr>) =
      Inr (\<lparr>columns = columns example_batch @
                [(''Churn_Probability'', [Num (4 / 5), Num (3 / 5), Num (1 / 2), Num (4 / 5)]),
                 (''Risk_Level'', [Str ''High'', Str ''Low'', Str ''Low'', Str ''High''])],
            nrows = 4\<rparr>)"
    by (simp add: set_column_def n risk_level_def column_names_def example_batch_def)
  have any: "True \<in> set (high_risk_mask [4 / 5, 3 / 5, 1 / 2, 4 / 5])"
    by (simp add: high_risk_mask_def)
  show ?thesis
    by (simp add: predict_batch_def clean_example_batch example_batch_probs bind_err_def s1 s2
        any example_high_risk_rows example_aggregate)
qed

lemma example_high_risk_encoded:
  "preprocessor_transform example_model
     \<lparr>columns = [(''Contract'', [Str ''Month-to-month'', Str ''One year'']),
                 (''tenure'', [Num 1, Num 5]),
                 (''TotalCharges'', [Num 95, Num 0])], nrows = 2\<rparr> =
     [[1, 0, 0, 1], [0, 1, 0, 5]]"
  by (simp add: example_model_def example_transform_def get_column_def example_onehot_def
      example_number_def)

text \<open>
  C9. The code at an input where the claim fails. In the example batch the rows of
  probability 4/5 are the high-risk subset; their encoded rows have four features, with
  mean absolute contributions 1/20, 1/20, 0 and 3/10, the last one that of \<open>tenure\<close>.
  \<open>calculate_batch_shap_aggregate\<close> pairs these means by position with the three column
  labels of the frame before encoding: the ranked list gives \<open>tenure\<close> the mean 1/20 of
  an indicator of \<open>Contract\<close> and does not hold the largest mean, 3/10. So the list does
  not rank the features by their mean absolute contribution.
\<close>

theorem batch_ranking_mismatch:
  "map_sum id (\<lambda>r. case r of (results_df, df_clean, probs, agg) \<Rightarrow>
                  (probs, map_option (\<lambda>a. (mean_shap_values a, top_features a)) agg))
     (predict_batch example_parse example_model example_batch True) =
     Inr ([4 / 5, 3 / 5, 1 / 2, 4 / 5],
          Some ([1 / 20, 1 / 20, 0, 3 / 10],
                [(''Contract'', 1 / 20), (''tenure'', 1 / 20), (''TotalCharges'', 0)]))
   \<and> boolean_index example_batch_clean (high_risk_mask [4 / 5, 3 / 5, 1 / 2, 4 / 5]) =
       Inr \<lparr>columns = [(''Contract'', [Str ''Month-to-month'', Str ''One year'']),
                      (''tenure'', [Num 1, Num 5]),
                      (''TotalCharges'', [Num 95, Num 0])], nrows = 2\<rparr>
   \<and> preprocessor_transform example_model
       \<lparr>columns = [(''Contract'', [Str ''Month-to-month'', Str ''One year'']),
                   (''tenure'', [Num 1, Num 5]),
                   (''TotalCharges'', [Num 95, Num 0])], nrows = 2\<rparr> =
       [[1, 0, 0, 1], [0, 1, 0, 5]]"
  by (simp add: example_predict_batch_shap example_high_risk_rows example_high_risk_encoded)

section \<open>The argument of clean\_data is left alone\<close>

lemma replace_step_heap_eq:
  "r < length h \<Longrightarrow> replace_step_heap r col h = h[r := replace_step col (h ! r)]"
  by (simp add: replace_step_heap_def replace_step_def assign_column_def)

lemma fold_replace_step_heap:
  "r < length h \<Longrightarrow>
   fold (replace_step_heap r) cs h = h[r := fold replace_step cs (h ! r)]"
  by (induction cs arbitrary: h) (simp_all add: replace_step_heap_eq)

lemma clean_tail_heap:
  assumes "h3 = hp @ [d2]"
  shows "fold (replace_step_heap (length hp)) replace_cols
           (if c then assign_column name g (length hp) h3 else h3) =
         hp @ [fold replace_step replace_cols (if c then map_column name g d2 else d2)]"
  using assms by (simp add: fold_replace_step_heap assign_column_def)

lemma clean_data_heap_eq:
  "\<exists>pre. clean_data_heap parse df h =
           (length (h @ pre), (h @ pre) @ [clean_data parse (h ! df)])"
proof -
  let ?d = "h ! df"
  let ?d1 = "if ''customerID'' \<in> set (column_names ?d) then drop_columns [''customerID''] ?d else ?d"
  let ?d2 = "if ''Churn'' \<in> set (column_names ?d1) then drop_columns [''Churn''] ?d1 else ?d1"
  let ?pre = "(if ''customerID'' \<in> set (column_names ?d) then [?d] else []) @
              (if ''Churn'' \<in> set (column_names ?d1) then [?d1] else [])"
  let ?g = "map (fillna 0 \<circ> to_numeric_coerce parse)"
  have head: "(let (df1, h1) = df_copy df h;
          (df2, h2) = (if ''customerID'' \<in> set (column_names (h1 ! df1))
                       then df_drop [''customerID''] df1 h1 else (df1, h1))
       in (if ''Churn'' \<in> set (column_names (h2 ! df2))
                       then df_drop [''Churn''] df2 h2 else (df2, h2))) =
      (length (h @ ?pre), (h @ ?pre) @ [?d2])"
    by (simp add: df_copy_def df_drop_def new_object_def nth_append)
  have "clean_data_heap parse df h =
      (case (let (df1, h1) = df_copy df h;
          (df2, h2) = (if ''customerID'' \<in> set (column_names (h1 ! df1))
                       then df_drop [''customerID''] df1 h1 else (df1, h1))
       in (if ''Churn'' \<in> set (column_names (h2 ! df2))
                       then df_drop [''Churn''] df2 h2 else (df2, h2))) of
        (df3, h3) \<Rightarrow>
          (df3, fold (replace_step_heap df3) replace_cols
                  (if ''TotalCharges'' \<in> set (column_names (h3 ! df3))
                   then assign_column ''TotalCharges'' ?g df3 h3 else h3)))"
    by (simp add: clean_data_heap_def Let_def split: prod.splits)
  also have "\<dots> = (length (h @ ?pre), (h @ ?pre) @ [clean_data parse ?d])"
    unfolding head prod.case nth_append_length
    by (subst clean_tail_heap[OF refl]) (simp add: clean_data_def Let_def)
  finally show ?thesis by blast
qed


lemma clean_data_heap_frame:
  assumes "df < length h"
  shows "\<exists>r h'. clean_data_heap parse df h = (r, h') \<and> take (length h) h' = h
           \<and> h' ! df = h ! df \<and> length h \<le> r \<and> r < length h'
           \<and> h' ! r = clean_data parse (h ! df)"
proof -
  from clean_data_heap_eq[of parse df h] obtain pre where
    eq: "clean_data_heap parse df h = (length (h @ pre), (h @ pre) @ [clean_data parse (h ! df)])"
    by blast
  show ?thesis
    unfolding eq using assms by (simp add: nth_append)
qed

lemma predict_batch_heap_refines:
  assumes "df < length h"
  shows "map_sum id (\<lambda>vh. case fst vh of (res, dc, probs, agg) \<Rightarrow>
                       (snd vh ! res, snd vh ! dc, probs, agg))
           (predict_batch_heap parse m df include_shap h) =
         predict_batch parse m (h ! df) include_shap"
proof -
  from clean_data_heap_eq[of parse df h] obtain pre where
    eq: "clean_data_heap parse df h = (length (h @ pre), (h @ pre) @ [clean_data parse (h ! df)])"
    by blast
  show ?thesis
    using assms
    by (auto simp: predict_batch_heap_def predict_batch_def eq bind_err_def set_column_heap_def
        df_copy_def new_object_def nth_append Let_def split: sum.splits)
qed

lemma predict_batch_heap_frame:
  assumes "df < length h"
    and "predict_batch_heap parse m df include_shap h = Inr ((res, dc, probs, agg), h')"
  shows "take (length h) h' = h \<and> h' ! df = h ! df \<and> length h \<le> res \<and> res < length h'
         \<and> (\<exists>r1. set_column ''Churn_Probability'' (map Num probs) (h ! df) = Inr r1
                \<and> set_column ''Risk_Level'' (risk_level probs) r1 = Inr (h' ! res))"
proof -
  from clean_data_heap_eq[of parse df h] obtain pre where
    eq: "clean_data_heap parse df h = (length (h @ pre), (h @ pre) @ [clean_data parse (h ! df)])"
    by blast
  show ?thesis
    using assms
    by (auto simp: predict_batch_heap_def eq bind_err_def set_column_heap_def
        df_copy_def new_object_def nth_append Let_def split: sum.splits if_splits)
qed


text \<open>
  C10. \<open>clean_data\<close>, called on a frame of the heap, returns a reference to a frame
  allocated by the call, whose value is the cleaned table, and leaves every frame that
  existed before the call as it was, the argument among them. \<open>predict_batch\<close> on the heap
  computes what \<open>predict_batch\<close> on values computes from the value of its argument,
  leaves the frames that existed before as they were, and its augmented table is a new
  frame: the original table with the two columns set.
\<close>

theorem clean_data_does_not_mutate:
  assumes "df < length h"
  shows "(\<exists>r h'. clean_data_heap parse df h = (r, h') \<and> take (length h) h' = h
            \<and> h' ! df = h ! df \<and> length h \<le> r \<and> r < length h'
            \<and> h' ! r = clean_data parse (h ! df))
         \<and> map_sum id (\<lambda>vh. case fst vh of (res, dc, probs, agg) \<Rightarrow>
                       (snd vh ! res, snd vh ! dc, probs, agg))
             (predict_batch_heap parse m df include_shap h) =
             predict_batch parse m (h ! df) include_shap
         \<and> (\<forall>res dc probs agg h'.
               predict_batch_heap parse m df include_shap h = Inr ((res, dc, probs, agg), h') \<longrightarrow>
               take (length h) h' = h \<and> h' ! df = h ! df \<and> length h \<le> res \<and> res < length h'
               \<and> (\<exists>r1. set_column ''Churn_Probability'' (map Num probs) (h ! df) = Inr r1
                      \<and> set_column ''Risk_Level'' (risk_level probs) r1 = Inr (h' ! res)))"
  using clean_data_heap_frame[OF assms, of parse]
    predict_batch_heap_refines[OF assms, of parse m include_shap]
    predict_batch_heap_frame[OF assms, of parse m include_shap]
  by (intro conjI allI impI) (assumption | blast)+

theorem clean_data_does_not_mutate_witness:
  "(\<exists>r h'. clean_data_heap example_parse 0 [example_batch] = (r, h')
      \<and> take 1 h' = [example_batch] \<and> h' ! 0 = example_batch \<and> 1 \<le> r \<and> r < length h'
      \<and> h' ! r = example_batch_clean)
   \<and> map_sum id (\<lambda>vh. case fst vh of (res, dc, probs, agg) \<Rightarrow>
                       (snd vh ! res, snd vh ! dc, probs, agg))
       (predict_batch_heap example_parse example_model 0 True [example_batch]) =
       predict_batch example_parse example_model example_batch True"
  using clean_data_does_not_mutate [of 0 "[example_batch]" example_parse example_model True]
  by (simp add: clean_example_batch)


section \<open>Additive consistency\<close>

















end
